theory Spec2Isabelle
  imports Complex_Main "HOL-Library.Sublist"
begin

section \<open>YoutubeCommentSentiment.py: values, errors and collaborators\<close>

text \<open>
  A Python \<open>str\<close> is a sequence of code points: a text is a list over a character
  type \<open>'c\<close> (instantiated with \<open>nat\<close> for code points, or \<open>char\<close> for ASCII
  examples). Language codes and sentiment labels are ASCII literals of the program and
  are kept as \<open>string\<close>.

  \<open>pyval\<close> is what a list slot or a data-frame cell of the program can hold:
  \<open>None\<close>, the float \<open>nan\<close> (\<open>np.nan\<close>), or a \<open>str\<close>.
\<close>

datatype 'c pyval = NoneV | NaN | Str "'c list"

datatype error = HttpError | LangDetectException | TypeError | ValueError | SystemExit string

text \<open>
  The libraries are parameters of the model:
  \<^item> \<open>findall\<close> is \<open>demoji.findall\<close>: the dictionary from each emoji found in the text
    to its description, as an association list in the dictionary's iteration order;
  \<^item> \<open>detect\<close> is \<open>langdetect.detect\<close>, a function of the class attribute
    \<open>DetectorFactory.seed\<close> and of the text, returning a language code or raising;
  \<^item> \<open>polarity\<close> is \<open>TextBlob(text).sentiment.polarity\<close>.
\<close>

type_synonym 'c emoji_detector = "'c list \<Rightarrow> ('c list \<times> string) list"
type_synonym 'c lang_detector = "nat option \<Rightarrow> 'c list \<Rightarrow> error + string"
type_synonym 'c scorer = "'c list \<Rightarrow> real"

section \<open>remove\_emoji\<close>

text \<open>
  \<open>s.replace(old, new)\<close> of Python: every non-overlapping occurrence of \<open>old\<close>, found
  from left to right, is replaced; an empty \<open>old\<close> matches before every character and
  at the end.
\<close>

function replace :: "'c list \<Rightarrow> 'c list \<Rightarrow> 'c list \<Rightarrow> 'c list" where
  "replace s old new =
     (if old = [] then new @ concat (map (\<lambda>c. c # new) s)
      else if s = [] then []
      else if prefix old s then new @ replace (drop (length old) s) old new
      else hd s # replace (tl s) old new)"
  by pat_completeness auto
termination
  by (relation "measure (\<lambda>(s, old, new). length s)") auto

declare replace.simps [simp del]

fun remove_emoji_loop :: "'c list list \<Rightarrow> 'c list \<Rightarrow> 'c list" where
  "remove_emoji_loop [] demoji_text = demoji_text"
| "remove_emoji_loop (emoji # keys) demoji_text =
     remove_emoji_loop keys (replace demoji_text emoji [])"

definition remove_emoji :: "'c emoji_detector \<Rightarrow> 'c list \<Rightarrow> 'c list" where
  "remove_emoji findall text =
     (let emoji_idxs = findall text;
          demoji_text = text
      in remove_emoji_loop (map fst emoji_idxs) demoji_text)"

section \<open>remove\_non\_english\<close>

text \<open>
  The function assigns \<open>DetectorFactory.seed = 0\<close>, then calls \<open>detect\<close> inside
  \<open>try\<close>. It returns the text when the language is \<open>'en'\<close>; the bare \<open>except\<close>
  returns \<open>''\<close>; for any other language the body falls off its end, which in Python
  returns \<open>None\<close>. The seed is threaded through as state.
\<close>

definition remove_non_english ::
  "'c lang_detector \<Rightarrow> 'c list \<Rightarrow> nat option \<Rightarrow> 'c pyval \<times> nat option" where
  "remove_non_english detect text seed =
     (let seed' = Some 0 in
      (case detect seed' text of
         Inr language \<Rightarrow> if language = ''en'' then Str text else NoneV
       | Inl _ \<Rightarrow> Str [],
       seed'))"

section \<open>get\_sentiment\<close>

text \<open>
  \<open>TextBlob(text)\<close> raises \<open>TypeError\<close> when \<open>text\<close> is not a \<open>str\<close>. The body
  assigns the label to the local \<open>result\<close> and ends without a \<open>return\<close> statement, so
  the call evaluates to \<open>None\<close>.
\<close>

definition get_sentiment :: "'c scorer \<Rightarrow> 'c pyval \<Rightarrow> error + char pyval" where
  "get_sentiment polarity text =
     (case text of
        Str t \<Rightarrow>
          (let sentiment = polarity t;
               result = (if sentiment > 0 then ''Positive''
                         else if sentiment < 0 then ''Negative''
                         else ''Neutral'')
           in Inr NoneV)
      | _ \<Rightarrow> Inl TypeError)"

section \<open>clean\_comments\<close>

text \<open>
  Lists are mutable objects: the store maps an address to the list held there, and a
  variable of the program holds an address. The global state of a run is the store, the
  next free address and the class attribute \<open>DetectorFactory.seed\<close> (\<open>None\<close> until
  it is assigned).
\<close>

record 'c world =
  heap :: "nat \<Rightarrow> 'c pyval list"
  fresh :: nat
  DetectorFactory_seed :: "nat option"

definition alloc :: "'c pyval list \<Rightarrow> 'c world \<Rightarrow> nat \<times> 'c world" where
  "alloc xs w = (fresh w, w\<lparr>heap := (heap w)(fresh w := xs), fresh := Suc (fresh w)\<rparr>)"

definition store_item :: "nat \<Rightarrow> nat \<Rightarrow> 'c pyval \<Rightarrow> 'c world \<Rightarrow> 'c world" where
  "store_item a index v w = w\<lparr>heap := (heap w)(a := (heap w a)[index := v])\<rparr>"

text \<open>
  One pass of the loop body at \<open>index\<close>: \<open>comment\<close> is the item the list iterator
  reads there; \<open>demoji.findall\<close> raises \<open>TypeError\<close> on anything but a \<open>str\<close>. Both
  assignments write slot \<open>index\<close> of the list object itself; the second one reads
  back the string the first one has just stored.
\<close>

definition clean_step ::
  "'c emoji_detector \<Rightarrow> 'c lang_detector \<Rightarrow> nat \<Rightarrow> nat \<Rightarrow> 'c world \<Rightarrow> error + 'c world" where
  "clean_step findall detect a index w =
     (case heap w a ! index of
        Str comment \<Rightarrow>
          (let demoji_text = remove_emoji findall comment;
               w1 = store_item a index (Str demoji_text) w;
               (v, sd) = remove_non_english detect demoji_text (DetectorFactory_seed w1)
           in Inr (store_item a index v (w1\<lparr>DetectorFactory_seed := sd\<rparr>)))
      | _ \<Rightarrow> Inl TypeError)"

function clean_loop ::
  "'c emoji_detector \<Rightarrow> 'c lang_detector \<Rightarrow> nat \<Rightarrow> nat \<Rightarrow> 'c world \<Rightarrow> (error + nat) \<times> 'c world" where
  "clean_loop findall detect a index w =
     (if index < length (heap w a) then
        (case clean_step findall detect a index w of
           Inl e \<Rightarrow> (Inl e, w)
         | Inr w' \<Rightarrow> clean_loop findall detect a (Suc index) w')
      else (Inr a, w))"
  by pat_completeness auto
termination
  by (relation "measure (\<lambda>(findall, detect, a, index, w). length (heap w a) - index)")
     (auto simp: clean_step_def store_item_def Let_def split: pyval.splits prod.splits)

declare clean_loop.simps [simp del]

definition clean_comments ::
  "'c emoji_detector \<Rightarrow> 'c lang_detector \<Rightarrow> nat \<Rightarrow> 'c world \<Rightarrow> (error + nat) \<times> 'c world" where
  "clean_comments findall detect comments w = clean_loop findall detect comments 0 w"

section \<open>build\_sentiment\_df\<close>

text \<open>
  The pandas operations the function uses, on a frame held as its rows: the index label
  of the row and the cell of each column.

  \<open>pd.DataFrame(comments)\<close> of a list of scalars has one column (labelled \<open>0\<close>) and
  the index \<open>0, 1, ...\<close>; of the empty list it has no column and no row.
  \<open>df.columns = ['Comment']\<close> raises \<open>ValueError\<close> (length mismatch) unless the frame
  has exactly one column.
\<close>

definition DataFrame :: "'c pyval list \<Rightarrow> nat \<times> (nat \<times> 'c pyval) list" where
  "DataFrame data = (if data = [] then (0, []) else (1, enumerate 0 data))"

definition set_columns ::
  "nat \<times> (nat \<times> 'c pyval) list \<Rightarrow> string list \<Rightarrow> error + (nat \<times> 'c pyval) list" where
  "set_columns df names =
     (if fst df = length names then Inr (snd df) else Inl ValueError)"

text \<open>
  \<open>replace('', np.nan)\<close>: a cell equal to the empty string becomes \<open>nan\<close>.

  The code calls it as \<open>df['Comment'].replace('', np.nan, inplace=True)\<close>, on the column
  selected from the frame. What that does to \<open>df\<close> depends on the pandas that runs the
  script: before version 3 the selected column shares its data with the frame, and the
  frame is changed; with copy-on-write (version 3, or the option switched on in
  version 2) the call changes a temporary column and \<open>df\<close> is left as it was. The
  flag \<open>copy_on_write\<close> is a parameter of \<open>build_sentiment_df\<close> and selects between
  the two.
\<close>

definition replace_value :: "'c pyval \<Rightarrow> 'c pyval \<Rightarrow> (nat \<times> 'c pyval) list \<Rightarrow> (nat \<times> 'c pyval) list" where
  "replace_value to_replace v rows = map (\<lambda>(i, c). (i, if c = to_replace then v else c)) rows"

text \<open>\<open>isna\<close> holds of \<open>None\<close> and of \<open>nan\<close>; \<open>dropna\<close> keeps the other rows,
  with their index labels.\<close>

fun isna :: "'c pyval \<Rightarrow> bool" where
  "isna NoneV = True"
| "isna NaN = True"
| "isna (Str t) = False"

definition isna_sum :: "(nat \<times> 'c pyval) list \<Rightarrow> nat" where
  "isna_sum rows = length (filter (\<lambda>(i, c). isna c) rows)"

definition dropna :: "(nat \<times> 'c pyval) list \<Rightarrow> (nat \<times> 'c pyval) list" where
  "dropna rows = filter (\<lambda>(i, c). \<not> isna c) rows"

text \<open>\<open>df['Comment'].apply(f)\<close> calls \<open>f\<close> on each cell from the first row on; an
  exception of \<open>f\<close> ends the call. The result is the new column beside the old one.\<close>

fun Series_apply ::
  "('c pyval \<Rightarrow> error + char pyval) \<Rightarrow> (nat \<times> 'c pyval) list
     \<Rightarrow> error + (nat \<times> 'c pyval \<times> char pyval) list" where
  "Series_apply f [] = Inr []"
| "Series_apply f ((i, c) # rows) =
     (case f c of
        Inl e \<Rightarrow> Inl e
      | Inr s \<Rightarrow>
          (case Series_apply f rows of
             Inl e \<Rightarrow> Inl e
           | Inr rest \<Rightarrow> Inr ((i, c, s) # rest)))"

text \<open>\<open>value_counts()\<close> maps each value that occurs in the column to the number of its
  occurrences; \<open>None\<close> and \<open>nan\<close> cells are left out (\<open>dropna=True\<close> is the default).\<close>

definition value_counts :: "char pyval list \<Rightarrow> (string \<rightharpoonup> nat)" where
  "value_counts col =
     (\<lambda>v. if Str v \<in> set col then Some (count_list col (Str v)) else None)"

datatype printed =
    Text string
  | Summary nat
  | Counts "string \<rightharpoonup> nat"

type_synonym 'c dataframe = "(nat \<times> 'c pyval \<times> char pyval) list"

definition Comment :: "'c dataframe \<Rightarrow> 'c pyval list" where
  "Comment df = map (\<lambda>(i, c, s). c) df"

definition Sentiment :: "'c dataframe \<Rightarrow> char pyval list" where
  "Sentiment df = map (\<lambda>(i, c, s). s) df"

definition build_sentiment_df ::
  "bool \<Rightarrow> 'c scorer \<Rightarrow> 'c pyval list \<Rightarrow> error + printed list \<times> 'c dataframe" where
  "build_sentiment_df copy_on_write polarity comments =
     (case set_columns (DataFrame comments) [''Comment''] of
        Inl e \<Rightarrow> Inl e
      | Inr df0 \<Rightarrow>
          (let df1 = (if copy_on_write then df0 else replace_value (Str []) NaN df0);
               count_nan = isna_sum df1;
               df2 = dropna df1
           in case Series_apply (get_sentiment polarity) df2 of
                Inl e \<Rightarrow> Inl e
              | Inr df \<Rightarrow> Inr ([Summary count_nan, Counts (value_counts (Sentiment df))], df)))"

section \<open>get\_youtube\_comment\_threads and the script\<close>

text \<open>
  \<open>youtube\<close> is the API call \<open>commentThreads().list(...).execute()\<close> for a video
  and a page size: it raises, or returns the \<open>textDisplay\<close> of the top-level comment
  of each item. The function appends each text to a new list.
\<close>

type_synonym 'c youtube_api = "string \<Rightarrow> nat \<Rightarrow> error + 'c list list"

definition results_cap :: nat where
  "results_cap = 100"

fun append_texts :: "'c list list \<Rightarrow> 'c pyval list \<Rightarrow> 'c pyval list" where
  "append_texts [] comments_text = comments_text"
| "append_texts (text # items) comments_text = append_texts items (comments_text @ [Str text])"

definition get_youtube_comment_threads ::
  "'c youtube_api \<Rightarrow> string \<Rightarrow> 'c world \<Rightarrow> (error + nat) \<times> 'c world" where
  "get_youtube_comment_threads youtube video_id w =
     (case youtube video_id results_cap of
        Inl e \<Rightarrow> (Inl e, w)
      | Inr items \<Rightarrow>
          (let (comments_text, w') = alloc (append_texts items []) w
           in (Inr comments_text, w')))"

datatype yn = Y | N

record args =
  videoid :: "string option"
  csv :: "yn option"

text \<open>
  What a run of the script leaves behind: the lines printed, how it ended (\<open>Inl\<close> is
  the exception that ended it), and the file written by \<open>to_csv\<close> if any.
\<close>

record 'c run =
  stdout :: "printed list"
  outcome :: "error + unit"
  csv_file :: "(string \<times> 'c dataframe) option"

definition crashed :: "printed list \<Rightarrow> error \<Rightarrow> 'c run" where
  "crashed out e = \<lparr>stdout = out, outcome = Inl e, csv_file = None\<rparr>"

definition csv_name :: "string \<Rightarrow> string \<Rightarrow> string" where
  "csv_name cwd video_id = cwd @ [CHR 0x5C] @ ''SentimentComments_'' @ video_id @ ''.csv''"

definition main ::
  "'c youtube_api \<Rightarrow> 'c emoji_detector \<Rightarrow> 'c lang_detector \<Rightarrow> 'c scorer \<Rightarrow> bool \<Rightarrow> string
     \<Rightarrow> args \<Rightarrow> 'c world \<Rightarrow> 'c run" where
  "main youtube findall detect polarity copy_on_write cwd args w0 =
     (case videoid args of
        None \<Rightarrow> crashed [] (SystemExit ''Please specify videoid using the --videoid= parameter.'')
      | Some video_id \<Rightarrow>
          if video_id = [] then
            crashed [] (SystemExit ''Please specify videoid using the --videoid= parameter.'')
          else
            (let (video_comments, w1) = alloc [] w0;
                 fetched =
                   (case get_youtube_comment_threads youtube video_id w1 of
                      (Inr a, w2) \<Rightarrow> Inr (a, [Text ''Comments successfully accessed.''], w2)
                    | (Inl e, w2) \<Rightarrow>
                        if e = HttpError
                        then Inr (video_comments, [Text ''An HTTP error occurred''], w2)
                        else Inl e)
             in case fetched of
                  Inl e \<Rightarrow> crashed [] e
                | Inr (video_comments, out, w2) \<Rightarrow>
                    (case clean_comments findall detect video_comments w2 of
                       (Inl e, w3) \<Rightarrow> crashed out e
                     | (Inr cleaned_comments, w3) \<Rightarrow>
                         (case build_sentiment_df copy_on_write polarity
                                 (heap w3 cleaned_comments) of
                            Inl e \<Rightarrow> crashed out e
                          | Inr (report, result) \<Rightarrow>
                              \<lparr>stdout = out @ report,
                               outcome = Inr (),
                               csv_file = (if csv args = Some Y
                                           then Some (csv_name cwd video_id, result)
                                           else None)\<rparr>))))"

section \<open>Example collaborators and inputs\<close>

text \<open>
  Stand-ins for the libraries, and the comments of a small scenario, on which the model
  is run below. Texts are
  lists of code points (\<open>nat\<close>); \<open>py\<close> writes an ASCII literal as one. \<open>128512\<close> is
  U+1F600 (grinning face); \<open>[35, 8419]\<close> is \<open>#\<close> followed by U+20E3, the keycap
  sequence of the emoji list.
\<close>

abbreviation py :: "string \<Rightarrow> nat list" where
  "py s \<equiv> map of_char s"

definition grin_findall :: "nat emoji_detector" where
  "grin_findall text = (if 128512 \<in> set text then [([128512], ''grinning face'')] else [])"



definition mock_detect :: "nat lang_detector" where
  "mock_detect sd text =
     (if text = [] then Inl LangDetectException
      else if text = py ''Bonjour le monde'' then Inr ''fr''
      else Inr ''en'')"

definition mock_polarity :: "nat scorer" where
  "mock_polarity text =
     (if text = py ''Great video! '' then 1 / 2
      else if text = py ''Bad content'' then - (1 / 2)
      else 0)"

definition http_error_api :: "'c youtube_api" where
  "http_error_api video_id maxResults = Inl HttpError"

definition no_comments_api :: "'c youtube_api" where
  "no_comments_api video_id maxResults = Inr []"

definition scenario_raw :: "nat list list" where
  "scenario_raw = [py ''Great video! '' @ [128512], [], py ''Bad content'', py ''Bonjour le monde'']"

definition scenario_cleaned :: "nat pyval list" where
  "scenario_cleaned = [Str (py ''Great video! ''), Str [], Str (py ''Bad content''), NoneV]"

definition scenario_world :: "nat world" where
  "scenario_world = \<lparr>heap = (\<lambda>a. [])(0 := map Str scenario_raw), fresh = 1, DetectorFactory_seed = None\<rparr>"

section \<open>Auxiliary lemmas\<close>

subsection \<open>String replacement and the emoji loop\<close>

lemma replace_Nil [simp]: "replace [] old [] = []"
  by (simp add: replace.simps)



lemma replace_single_Cons:
  "replace (x # xs) [c] [] = (if x = c then replace xs [c] [] else x # replace xs [c] [])"
  by (subst replace.simps) simp

lemma replace_single: "replace s [c] [] = filter (\<lambda>x. x \<noteq> c) s"
  by (induction s) (simp_all add: replace_single_Cons)













subsection \<open>The cleaning loop\<close>

lemma fst_remove_non_english:
  "fst (remove_non_english detect t sd) = fst (remove_non_english detect t sd')"
  by (simp add: remove_non_english_def Let_def)

lemma snd_remove_non_english: "snd (remove_non_english detect t sd) = Some 0"
  by (simp add: remove_non_english_def Let_def)

lemma clean_step_Str:
  assumes "index < length (heap w a)" and "heap w a ! index = Str comment"
  shows "clean_step findall detect a index w =
     Inr (w\<lparr>heap := (heap w)(a := (heap w a)
               [index := fst (remove_non_english detect (remove_emoji findall comment) None)]),
            DetectorFactory_seed := Some 0\<rparr>)"
  using assms fst_remove_non_english [of detect "remove_emoji findall comment" "DetectorFactory_seed w" None]
    snd_remove_non_english [of detect "remove_emoji findall comment" "DetectorFactory_seed w"]
  by (auto simp: clean_step_def store_item_def Let_def split: prod.splits)

lemma clean_slot:
  assumes "i < length ts"
  shows "(map f (take i ts) @ map Str (drop i ts))[i := f (ts ! i)] =
     map f (take (Suc i) ts) @ map Str (drop (Suc i) ts)"
proof -
  have "drop i ts = ts ! i # drop (Suc i) ts"
    using assms by (simp add: Cons_nth_drop_Suc)
  moreover have "take (Suc i) ts = take i ts @ [ts ! i]"
    using assms by (simp add: take_Suc_conv_app_nth)
  moreover have "length (map f (take i ts)) = i"
    using assms by simp
  ultimately show ?thesis
    by (simp add: list_update_append)
qed

text \<open>The loop invariant: the slots before \<open>index\<close> hold cleaned values, the others the
  raw strings.\<close>

lemma clean_loop_from:
  assumes "heap w a = map f (take i ts) @ map Str (drop i ts)"
    and "i \<le> length ts"
    and "f = (\<lambda>t. fst (remove_non_english detect (remove_emoji findall t) None))"
  shows "clean_loop findall detect a i w =
     (Inr a, w\<lparr>heap := (heap w)(a := map f ts),
               DetectorFactory_seed := (if i < length ts then Some 0 else DetectorFactory_seed w)\<rparr>)"
  using assms(1,2)
proof (induction "length ts - i" arbitrary: i w)
  case 0
  then have i: "i = length ts" by simp
  with 0 have h: "heap w a = map f ts" by simp
  have "(heap w)(a := map f ts) = heap w"
    using h by auto
  then show ?case
    using i h by (subst clean_loop.simps) simp
next
  case (Suc n)
  then have i: "i < length ts" by simp
  have len: "length (heap w a) = length ts"
    using Suc.prems by simp
  have nth: "heap w a ! i = Str (ts ! i)"
    using Suc.prems i by (simp add: nth_append)
  define w' where "w' = w\<lparr>heap := (heap w)(a := (heap w a)[i := f (ts ! i)]),
                            DetectorFactory_seed := Some 0\<rparr>"
  have step: "clean_step findall detect a i w = Inr w'"
    using clean_step_Str [of i w a "ts ! i" findall detect] i len nth
    by (simp add: w'_def assms(3))
  have h': "heap w' a = map f (take (Suc i) ts) @ map Str (drop (Suc i) ts)"
    using Suc.prems i by (simp add: w'_def clean_slot)
  have "clean_loop findall detect a (Suc i) w' =
     (Inr a, w'\<lparr>heap := (heap w')(a := map f ts),
               DetectorFactory_seed := (if Suc i < length ts then Some 0 else DetectorFactory_seed w')\<rparr>)"
    using Suc.hyps(2) i h' by (intro Suc.hyps(1)) simp_all
  also have "\<dots> = (Inr a, w\<lparr>heap := (heap w)(a := map f ts), DetectorFactory_seed := Some 0\<rparr>)"
    by (simp add: w'_def)
  finally show ?case
    using i len step by (subst clean_loop.simps) simp
qed

lemma clean_comments_run:
  assumes "heap w comments = map Str ts"
  shows "clean_comments findall detect comments w =
     (Inr comments,
      w\<lparr>heap := (heap w)(comments :=
             map (\<lambda>t. fst (remove_non_english detect (remove_emoji findall t) None)) ts),
        DetectorFactory_seed := (if ts = [] then DetectorFactory_seed w else Some 0)\<rparr>)"
  using clean_loop_from [of w comments _ 0 ts detect findall, OF _ _ refl] assms
  by (simp add: clean_comments_def)

lemma clean_scenario_raw:
  "map (\<lambda>t. fst (remove_non_english mock_detect (remove_emoji grin_findall t) None)) scenario_raw
     = scenario_cleaned"
  by (simp add: scenario_raw_def scenario_cleaned_def remove_emoji_def grin_findall_def
      replace_single remove_non_english_def mock_detect_def)

subsection \<open>The data frame\<close>

lemma get_sentiment_Str: "get_sentiment polarity (Str t) = Inr NoneV"
  by (simp add: get_sentiment_def)

lemma Series_apply_get_sentiment:
  "Series_apply (get_sentiment polarity) (dropna rows) =
     Inr (map (\<lambda>(i, c). (i, c, NoneV)) (dropna rows))"
proof (induction rows)
  case Nil
  then show ?case by (simp add: dropna_def)
next
  case (Cons r rows)
  obtain i c where r: "r = (i, c)" by (cases r)
  from Cons.IH show ?case
    by (cases c) (simp_all add: r dropna_def get_sentiment_Str)
qed

lemma build_sentiment_df_nonempty:
  "comments \<noteq> [] \<Longrightarrow>
   build_sentiment_df copy_on_write polarity comments =
     (let df0 = enumerate 0 comments;
          df1 = (if copy_on_write then df0 else replace_value (Str []) NaN df0);
          df = map (\<lambda>(i, c). (i, c, NoneV)) (dropna df1)
      in Inr ([Summary (isna_sum df1), Counts (value_counts (Sentiment df))], df))"
  by (simp add: build_sentiment_df_def DataFrame_def set_columns_def Let_def
      Series_apply_get_sentiment)

lemma build_sentiment_df_empty: "build_sentiment_df copy_on_write polarity [] = Inl ValueError"
  by (simp add: build_sentiment_df_def DataFrame_def set_columns_def)

lemma Comment_survivors:
  "map (\<lambda>(i, c). c) (dropna (replace_value (Str []) NaN (enumerate n comments))) =
     filter (\<lambda>c. \<not> (isna c \<or> c = Str [])) comments"
  by (induction comments arbitrary: n) (auto simp: dropna_def replace_value_def)

lemma Comment_survivors_cow:
  "map (\<lambda>(i, c). c) (dropna (enumerate n comments)) = filter (\<lambda>c. \<not> isna c) comments"
  by (induction comments arbitrary: n) (auto simp: dropna_def)

lemma isna_sum_removed:
  "isna_sum (replace_value (Str []) NaN (enumerate n comments)) =
     length (filter (\<lambda>c. isna c \<or> c = Str []) comments)"
  by (induction comments arbitrary: n) (auto simp: isna_sum_def replace_value_def)

lemma isna_sum_removed_cow:
  "isna_sum (enumerate n comments) = length (filter (\<lambda>c. isna c) comments)"
  by (induction comments arbitrary: n) (auto simp: isna_sum_def)

text \<open>
  On a non-empty list the function returns. The rows it drops are the \<open>None\<close>/\<open>nan\<close>
  entries and, unless pandas runs with copy-on-write, the empty strings; the
  \<open>Comment\<close> column holds the other entries in the order of the input, and the count
  printed is the number of entries dropped.
\<close>

lemma build_sentiment_df_survivors:
  assumes "comments \<noteq> []"
  shows "\<exists>n counts df. build_sentiment_df copy_on_write polarity comments
             = Inr ([Summary n, Counts counts], df)
      \<and> Comment df = filter (\<lambda>c. \<not> (isna c \<or> (\<not> copy_on_write \<and> c = Str []))) comments
      \<and> n = length (filter (\<lambda>c. isna c \<or> (\<not> copy_on_write \<and> c = Str [])) comments)"
proof (cases copy_on_write)
  case True
  have "Comment (map (\<lambda>(i, c). (i, c, NoneV :: char pyval)) (dropna (enumerate 0 comments)))
      = map (\<lambda>(i, c). c) (dropna (enumerate 0 comments))"
    by (simp add: Comment_def comp_def case_prod_unfold)
  then show ?thesis
    using assms True
    by (simp add: build_sentiment_df_nonempty Let_def Comment_survivors_cow isna_sum_removed_cow)
next
  case False
  have "Comment (map (\<lambda>(i, c). (i, c, NoneV :: char pyval))
          (dropna (replace_value (Str []) NaN (enumerate 0 comments))))
      = map (\<lambda>(i, c). c) (dropna (replace_value (Str []) NaN (enumerate 0 comments)))"
    by (simp add: Comment_def comp_def case_prod_unfold)
  then show ?thesis
    using assms False
    by (simp add: build_sentiment_df_nonempty Let_def Comment_survivors isna_sum_removed)
qed

lemma dom_value_counts: "dom (value_counts col) = {v. Str v \<in> set col}"
  by (auto simp: value_counts_def dom_def)

lemma value_counts_positive:
  "value_counts col v = Some k \<Longrightarrow> k = count_list col (Str v) \<and> 0 < k"
  using count_list_0_iff [of col "Str v"] by (auto simp: value_counts_def split: if_splits)

section \<open>Properties of the program\<close>

text \<open>
  C1. For every input text, \<open>get_sentiment\<close> is claimed to return the label given by
  the sign of the polarity score. The code computes that label into a local variable
  and never returns it: for every scorer and every text the call returns \<open>None\<close>.
\<close>

theorem get_sentiment_returns_None:
  "get_sentiment polarity (Str text) = Inr NoneV"
  by (simp add: get_sentiment_def)

text \<open>
  C2. When the fetch raises \<open>HttpError\<close>, the script prints the failure and goes on
  with the empty list; \<open>build_sentiment_df\<close> then raises \<open>ValueError\<close> on the frame
  without columns, before any summary is printed: the run ends with that exception.
\<close>

theorem main_http_error_raises_ValueError:
  "main http_error_api findall detect polarity copy_on_write cwd
       \<lparr>videoid = Some ''dQw4w9WgXcQ'', csv = Some Y\<rparr> w0
     = \<lparr>stdout = [Text ''An HTTP error occurred''], outcome = Inl ValueError, csv_file = None\<rparr>"
  by (simp add: main_def http_error_api_def alloc_def get_youtube_comment_threads_def
      clean_comments_def clean_loop.simps build_sentiment_df_empty crashed_def)

text \<open>
  C3 (as amended). Whenever \<open>build_sentiment_df\<close> returns, the summary it prints is
  \<open>value_counts\<close> of the \<open>Sentiment\<close> column of the returned frame: its keys are
  exactly the values that occur in that column, and each key is mapped to its number of
  occurrences, which is positive. A label that does not occur is not a key.
\<close>

theorem summary_keys_are_occurring_values:
  assumes "build_sentiment_df copy_on_write polarity comments = Inr (report, df)"
  shows "\<exists>n counts. report = [Summary n, Counts counts]
     \<and> dom counts = {v. Str v \<in> set (Sentiment df)}
     \<and> (\<forall>v k. counts v = Some k \<longrightarrow> k = count_list (Sentiment df) (Str v) \<and> 0 < k)"
proof -
  from assms obtain n where "report = [Summary n, Counts (value_counts (Sentiment df))]"
    by (auto simp: build_sentiment_df_def Let_def split: sum.splits)
  then show ?thesis
    using dom_value_counts [of "Sentiment df"] value_counts_positive [of "Sentiment df"]
    by blast
qed

theorem summary_keys_are_occurring_values_witness:
  "build_sentiment_df False mock_polarity [Str (py ''Bad content''), NaN] =
     Inr ([Summary 1, Counts Map.empty], [(0, Str (py ''Bad content''), NoneV)])
   \<and> (\<exists>n counts. [Summary 1, Counts Map.empty] = [Summary n, Counts counts]
        \<and> dom counts = {v. Str v \<in> set (Sentiment [(0 :: nat, Str (py ''Bad content''), NoneV)])})"
proof -
  have run: "build_sentiment_df False mock_polarity [Str (py ''Bad content''), NaN] =
     Inr ([Summary 1, Counts Map.empty], [(0, Str (py ''Bad content''), NoneV)])"
    by (auto simp: build_sentiment_df_nonempty Let_def replace_value_def
        dropna_def isna_sum_def Sentiment_def value_counts_def)
  from summary_keys_are_occurring_values [OF run] run show ?thesis
    by blast
qed

text \<open>
  C3 as stated fails: on a single comment scored positive the printed summary has no
  key at all, with either pandas; and \<open>value_counts\<close> of a column holding only
  \<open>'Positive'\<close> and \<open>'Negative'\<close> has those two keys and no \<open>'Neutral'\<close>.
\<close>

theorem summary_keys_not_three_labels:
  "build_sentiment_df False mock_polarity [Str (py ''Great video! '')] =
     Inr ([Summary 0, Counts Map.empty], [(0, Str (py ''Great video! ''), NoneV)])
   \<and> build_sentiment_df True mock_polarity [Str (py ''Great video! '')] =
     Inr ([Summary 0, Counts Map.empty], [(0, Str (py ''Great video! ''), NoneV)])
   \<and> dom (Map.empty :: string \<rightharpoonup> nat) \<noteq> {''Positive'', ''Negative'', ''Neutral''}
   \<and> dom (value_counts [Str ''Positive'', Str ''Negative'', Str ''Positive''])
       = {''Positive'', ''Negative''}
   \<and> value_counts [Str ''Positive'', Str ''Negative'', Str ''Positive''] ''Neutral'' = None"
  by (auto simp: build_sentiment_df_nonempty Let_def replace_value_def
      dropna_def isna_sum_def Sentiment_def value_counts_def dom_def)

text \<open>
  C4. For a text whose detected language is not \<open>'en'\<close>, \<open>remove_non_english\<close> is
  claimed (and documented) to return the empty string. The code returns \<open>None\<close>
  there: only the \<open>'en'\<close> branch and the exception handler have a \<open>return\<close>.
\<close>

theorem remove_non_english_other_language_returns_None:
  "remove_non_english mock_detect (py ''Bonjour le monde'') sd = (NoneV, Some 0)
   \<and> remove_non_english (\<lambda>sd t. Inr language) text sd
       = (if language = ''en'' then Str text else NoneV, Some 0)"
  by (simp add: remove_non_english_def mock_detect_def)

text \<open>
  C5. The order of the surviving rows and the count of removed entries are claimed for
  every sequence. On the empty sequence \<open>build_sentiment_df\<close> produces neither rows nor
  a count: it raises \<open>ValueError\<close>, with either pandas, and a run of the script on a
  video without comments ends with that exception after the fetch has succeeded. (On
  every non-empty sequence the order and the count are as claimed:
  \<open>build_sentiment_df_survivors\<close>.)
\<close>

theorem build_sentiment_df_raises_on_no_comments:
  "build_sentiment_df copy_on_write polarity [] = Inl ValueError
   \<and> main no_comments_api findall detect polarity copy_on_write cwd
        \<lparr>videoid = Some ''dQw4w9WgXcQ'', csv = None\<rparr> w0
       = \<lparr>stdout = [Text ''Comments successfully accessed.''],
          outcome = Inl ValueError, csv_file = None\<rparr>"
  by (simp add: main_def no_comments_api_def alloc_def get_youtube_comment_threads_def
      clean_comments_def clean_loop.simps build_sentiment_df_def DataFrame_def set_columns_def
      crashed_def)

text \<open>
  C6. For every list \<open>xs\<close> of comment strings held at \<open>comments\<close>, \<open>clean_comments\<close>
  returns normally and leaves there a list of the same length whose item at each index
  \<open>i\<close> is \<open>remove_non_english\<close> of \<open>remove_emoji\<close> of \<open>xs ! i\<close>: nothing is
  reordered or dropped. (The language filter's result does not depend on the seed it
  finds, so any \<open>sd\<close> may stand for it.)
\<close>

theorem clean_comments_positional:
  assumes "heap w comments = map Str xs"
  shows "\<exists>w'. clean_comments findall detect comments w = (Inr comments, w')
     \<and> length (heap w' comments) = length xs
     \<and> (\<forall>i < length xs. heap w' comments ! i
            = fst (remove_non_english detect (remove_emoji findall (xs ! i)) sd))"
proof -
  define w' where "w' = snd (clean_comments findall detect comments w)"
  have run: "clean_comments findall detect comments w = (Inr comments, w')"
    by (simp add: w'_def clean_comments_run [OF assms])
  have h: "heap w' comments
      = map (\<lambda>t. fst (remove_non_english detect (remove_emoji findall t) None)) xs"
    by (simp add: w'_def clean_comments_run [OF assms])
  have "heap w' comments ! i = fst (remove_non_english detect (remove_emoji findall (xs ! i)) sd)"
    if "i < length xs" for i
    using that fst_remove_non_english [of detect "remove_emoji findall (xs ! i)" None sd]
    by (simp add: h)
  with run h show ?thesis by simp
qed

theorem clean_comments_positional_witness:
  "heap scenario_world 0 = map Str scenario_raw
   \<and> fst (clean_comments grin_findall mock_detect 0 scenario_world) = Inr 0
   \<and> heap (snd (clean_comments grin_findall mock_detect 0 scenario_world)) 0 = scenario_cleaned
   \<and> length scenario_cleaned = length scenario_raw"
proof -
  have h: "heap scenario_world 0 = map Str scenario_raw"
    by (simp add: scenario_world_def)
  have len: "length scenario_cleaned = length scenario_raw"
    by (simp add: scenario_cleaned_def scenario_raw_def)
  from clean_comments_positional [OF h, of grin_findall mock_detect None]
  obtain w' where "clean_comments grin_findall mock_detect 0 scenario_world = (Inr 0, w')"
    and "length (heap w' 0) = length scenario_raw"
    by blast
  moreover have "heap (snd (clean_comments grin_findall mock_detect 0 scenario_world)) 0 = scenario_cleaned"
    by (simp add: clean_comments_run [OF h] clean_scenario_raw)
  ultimately show ?thesis
    using h len by simp
qed




text \<open>
  C8. For every text on which the detector raises, \<open>remove_non_english\<close> returns the
  empty string: the exception is handled inside and the caller gets a value.
\<close>

theorem remove_non_english_detection_failure:
  assumes "detect (Some 0) text = Inl e"
  shows "remove_non_english detect text sd = (Str [], Some 0)"
  using assms by (simp add: remove_non_english_def)

theorem remove_non_english_detection_failure_witness:
  "mock_detect (Some 0) [] = Inl LangDetectException
   \<and> remove_non_english mock_detect [] None = (Str [], Some 0)"
  using remove_non_english_detection_failure [of mock_detect "[]" LangDetectException None]
  by (simp add: mock_detect_def)

text \<open>
  C9. \<open>remove_non_english\<close> assigns the seed before it calls the detector, so its
  result on a text is the same whatever the seed was before the call (a first call of a
  run, a later call, or a call of another run), and the seed is \<open>0\<close> afterwards. The
  detector is taken to be a function of the seed and the text.
\<close>

theorem remove_non_english_deterministic:
  "remove_non_english detect text sd1 = remove_non_english detect text sd2
   \<and> snd (remove_non_english detect text sd1) = Some 0"
  by (simp add: remove_non_english_def Let_def)

text \<open>
  C10. \<open>clean_comments\<close> works in place: called on a list of strings, it returns the
  address it was given, and the store afterwards differs from the store before only at
  that address, where the cleaned list has replaced the raw one.
\<close>

theorem clean_comments_in_place:
  assumes "heap w comments = map Str xs"
  shows "fst (clean_comments findall detect comments w) = Inr comments
     \<and> heap (snd (clean_comments findall detect comments w))
         = (heap w)(comments :=
              map (\<lambda>t. fst (remove_non_english detect (remove_emoji findall t) sd)) xs)"
proof -
  have "(\<lambda>t. fst (remove_non_english detect (remove_emoji findall t) None))
      = (\<lambda>t. fst (remove_non_english detect (remove_emoji findall t) sd))"
    using fst_remove_non_english [of detect _ None sd] by auto
  then show ?thesis
    by (simp add: clean_comments_run [OF assms])
qed

theorem clean_comments_in_place_witness:
  "heap scenario_world 0 = map Str scenario_raw
   \<and> fst (clean_comments grin_findall mock_detect 0 scenario_world) = Inr 0
   \<and> heap (snd (clean_comments grin_findall mock_detect 0 scenario_world))
       = (heap scenario_world)(0 := scenario_cleaned)
   \<and> heap (snd (clean_comments grin_findall mock_detect 0 scenario_world)) 0 \<noteq> heap scenario_world 0"
proof -
  have h: "heap scenario_world 0 = map Str scenario_raw"
    by (simp add: scenario_world_def)
  have "scenario_cleaned \<noteq> map Str scenario_raw"
    by (simp add: scenario_cleaned_def scenario_raw_def)
  then show ?thesis
    using clean_comments_in_place [OF h, of grin_findall mock_detect None] h
    by (simp add: clean_scenario_raw)
qed

end
